theory Spec2Isabelle
  imports Main
begin

section \<open>The Murmur ICE sidecar (scripts/mumble-ice.py)\<close>

text \<open>
  The sidecar reads one JSON request per line on standard input, routes it to one of
  seven remote procedures of a Murmur server, and writes one JSON response per request.
  This theory embeds \<open>create_communicator\<close>, \<open>dispatch\<close> and \<open>main\<close> of the script.

  Conventions of the embedding:
  \<^item> Text is a \<open>string\<close>, read as UTF-8 bytes. Whitespace, digits and escapes are the
    ASCII ones; a byte from \<open>0x80\<close> on is an ordinary character.
  \<^item> A JSON value is a \<open>json\<close>; Python's \<open>dict\<close> is an association list in insertion
    order. JSON numbers are the integers (Python's unbounded \<open>int\<close>); numbers with a
    fraction or an exponent are floating point and are not part of the model.
  \<^item> A raised exception is a value \<open>Exc cls text\<close>: its class and \<open>str(e)\<close>.
    A computation that may raise returns \<open>error + 'a\<close>, \<open>Inl\<close> the exception.
  \<^item> The JSON parser, the Ice runtime and the remote server are parameters.
  \<^item> The texts of the exceptions that the interpreter raises are those of CPython 3.11.
    Its limit on the number of digits that \<open>int\<close> converts (4300 unless configured)
    is not modelled, nor are failures of the standard streams themselves.
\<close>

subsection \<open>JSON values and exceptions\<close>

datatype json =
    JNull
  | JBool bool
  | JInt int
  | JStr string
  | JArr "json list"
  | JObj "(string \<times> json) list"

datatype exc_class =
    InvalidUserException
  | InvalidChannelException
  | InvalidSecretException
  | KeyError
  | TypeError
  | ValueError
  | AttributeError
  | RuntimeError
  | OtherException string

datatype error = Exc (exc_type: exc_class) (exc_str: string)

text \<open>\<open>type(e).__name__\<close>\<close>

fun class_name :: "exc_class \<Rightarrow> string" where
  "class_name InvalidUserException = ''InvalidUserException''"
| "class_name InvalidChannelException = ''InvalidChannelException''"
| "class_name InvalidSecretException = ''InvalidSecretException''"
| "class_name KeyError = ''KeyError''"
| "class_name TypeError = ''TypeError''"
| "class_name ValueError = ''ValueError''"
| "class_name AttributeError = ''AttributeError''"
| "class_name RuntimeError = ''RuntimeError''"
| "class_name (OtherException n) = n"

text \<open>Sequencing of computations that may raise: the first exception wins.\<close>

fun ebind :: "error + 'a \<Rightarrow> ('a \<Rightarrow> error + 'b) \<Rightarrow> error + 'b" where
  "ebind (Inl e) f = Inl e"
| "ebind (Inr x) f = f x"

subsection \<open>Python built-ins used by the script\<close>

text \<open>\<open>type(v).__name__\<close> of a parsed JSON value.\<close>

fun type_name :: "json \<Rightarrow> string" where
  "type_name JNull = ''NoneType''"
| "type_name (JBool b) = ''bool''"
| "type_name (JInt i) = ''int''"
| "type_name (JStr s) = ''str''"
| "type_name (JArr xs) = ''list''"
| "type_name (JObj kvs) = ''dict''"

text \<open>\<open>str.strip()\<close>: the ASCII characters for which \<open>str.isspace()\<close> holds.\<close>

definition is_space :: "char \<Rightarrow> bool" where
  "is_space c = (c \<in> set [CHR 0x09, CHR 0x0A, CHR 0x0B, CHR 0x0C, CHR 0x0D,
                          CHR 0x1C, CHR 0x1D, CHR 0x1E, CHR 0x1F, CHR 0x20])"

definition py_strip :: "string \<Rightarrow> string" where
  "py_strip s = rev (dropWhile is_space (rev (dropWhile is_space s)))"

text \<open>\<open>str(i)\<close> of an integer: decimal digits, a leading minus sign when negative.\<close>

definition digit_char :: "nat \<Rightarrow> char" where
  "digit_char d = char_of (48 + d)"

fun digits_nat :: "nat \<Rightarrow> string" where
  "digits_nat n = (if n < 10 then [digit_char n]
                   else digits_nat (n div 10) @ [digit_char (n mod 10)])"

declare digits_nat.simps [simp del]

definition str_int :: "int \<Rightarrow> string" where
  "str_int i = (if i < 0 then CHR ''-'' # digits_nat (nat (- i)) else digits_nat (nat i))"

text \<open>
  \<open>repr(s)\<close> of a string: single quotes, unless the text has a single quote and no
  double quote; backslash, the quote, tab, newline and carriage return are escaped,
  other control characters are written \<open>\xhh\<close>.
\<close>

definition hex_char :: "nat \<Rightarrow> char" where
  "hex_char d = (if d < 10 then char_of (48 + d) else char_of (87 + d))"

definition repr_char :: "char \<Rightarrow> char \<Rightarrow> string" where
  "repr_char q c =
     (if c = q \<or> c = CHR 0x5C then [CHR 0x5C, c]
      else if c = CHR 0x09 then [CHR 0x5C, CHR ''t'']
      else if c = CHR 0x0A then [CHR 0x5C, CHR ''n'']
      else if c = CHR 0x0D then [CHR 0x5C, CHR ''r'']
      else if (of_char c :: nat) < 32 \<or> c = CHR 0x7F
        then [CHR 0x5C, CHR ''x'', hex_char (of_char c div 16), hex_char (of_char c mod 16)]
      else [c])"

definition repr_str :: "string \<Rightarrow> string" where
  "repr_str s =
     (let q = (if CHR 0x27 \<in> set s \<and> CHR 0x22 \<notin> set s then CHR 0x22 else CHR 0x27)
      in [q] @ concat (map (repr_char q) s) @ [q])"

text \<open>\<open>', '.join(xs)\<close>\<close>

fun join_comma :: "string list \<Rightarrow> string" where
  "join_comma [] = []"
| "join_comma [x] = x"
| "join_comma (x # y # ys) = x @ '', '' @ join_comma (y # ys)"

text \<open>\<open>repr(v)\<close> and \<open>str(v)\<close> of a parsed JSON value.\<close>

fun py_repr :: "json \<Rightarrow> string" where
  "py_repr JNull = ''None''"
| "py_repr (JBool b) = (if b then ''True'' else ''False'')"
| "py_repr (JInt i) = str_int i"
| "py_repr (JStr s) = repr_str s"
| "py_repr (JArr xs) = ''['' @ join_comma (map py_repr xs) @ '']''"
| "py_repr (JObj kvs) =
     ''{'' @ join_comma (map (\<lambda>kv. repr_str (fst kv) @ '': '' @ py_repr (snd kv)) kvs) @ ''}''"

fun py_str :: "json \<Rightarrow> string" where
  "py_str (JStr s) = s"
| "py_str v = py_repr v"

text \<open>\<open>bool(v)\<close>: Python's truth value.\<close>

fun py_bool :: "json \<Rightarrow> bool" where
  "py_bool JNull = False"
| "py_bool (JBool b) = b"
| "py_bool (JInt i) = (i \<noteq> 0)"
| "py_bool (JStr s) = (s \<noteq> [])"
| "py_bool (JArr xs) = (xs \<noteq> [])"
| "py_bool (JObj kvs) = (kvs \<noteq> [])"

text \<open>
  \<open>int(v)\<close>. For text: optional white space around, an optional sign, then decimal
  digits, where single underscores may separate digits. The message of the
  \<open>ValueError\<close> shows at most 200 characters of the text's \<open>repr\<close>.
\<close>

definition int_space :: "char \<Rightarrow> bool" where
  "int_space c = (c \<in> set [CHR 0x09, CHR 0x0A, CHR 0x0B, CHR 0x0C, CHR 0x0D, CHR 0x20])"

definition is_digit :: "char \<Rightarrow> bool" where
  "is_digit c = (48 \<le> (of_char c :: nat) \<and> (of_char c :: nat) \<le> 57)"

definition digit_val :: "char \<Rightarrow> nat" where
  "digit_val c = of_char c - 48"

text \<open>
  \<open>parse_digits acc prev cs\<close>: the value of the digits \<open>cs\<close> after the digits read so far
  (\<open>acc\<close>); \<open>prev\<close> says that the previous character was a digit, which an underscore and
  the end of the text need.
\<close>

fun parse_digits :: "nat \<Rightarrow> bool \<Rightarrow> string \<Rightarrow> nat option" where
  "parse_digits acc prev [] = (if prev then Some acc else None)"
| "parse_digits acc prev (c # cs) =
     (if is_digit c then parse_digits (10 * acc + digit_val c) True cs
      else if c = CHR ''_'' \<and> prev then parse_digits acc False cs
      else None)"

definition int_of_text :: "string \<Rightarrow> int option" where
  "int_of_text s =
     (let t = rev (dropWhile int_space (rev (dropWhile int_space s)))
      in case t of
           [] \<Rightarrow> None
         | c # cs \<Rightarrow>
             if c = CHR ''-'' then map_option (\<lambda>n. - int n) (parse_digits 0 False cs)
             else if c = CHR ''+'' then map_option int (parse_digits 0 False cs)
             else map_option int (parse_digits 0 False (c # cs)))"

fun py_int :: "json \<Rightarrow> error + int" where
  "py_int (JInt i) = Inr i"
| "py_int (JBool b) = Inr (if b then 1 else 0)"
| "py_int (JStr s) =
     (case int_of_text s of
        Some i \<Rightarrow> Inr i
      | None \<Rightarrow> Inl (Exc ValueError
                 (''invalid literal for int() with base 10: '' @ take 200 (repr_str s))))"
| "py_int v =
     Inl (Exc TypeError
       (''int() argument must be a string, a bytes-like object or a real number, not ''
          @ [CHR 0x27] @ type_name v @ [CHR 0x27]))"

text \<open>\<open>d.get(key, default)\<close>: only a \<open>dict\<close> has the method.\<close>

definition dict_get :: "(string \<times> json) list \<Rightarrow> string \<Rightarrow> json \<Rightarrow> json" where
  "dict_get kvs key dflt = (case map_of kvs key of Some v \<Rightarrow> v | None \<Rightarrow> dflt)"

fun py_get :: "json \<Rightarrow> string \<Rightarrow> json \<Rightarrow> error + json" where
  "py_get (JObj kvs) key dflt = Inr (dict_get kvs key dflt)"
| "py_get v key dflt =
     Inl (Exc AttributeError
       ([CHR 0x27] @ type_name v @ [CHR 0x27] @ '' object has no attribute ''
          @ [CHR 0x27] @ ''get'' @ [CHR 0x27]))"

text \<open>\<open>d[key]\<close> with a text key.\<close>

fun py_getitem :: "json \<Rightarrow> string \<Rightarrow> error + json" where
  "py_getitem (JObj kvs) key =
     (case map_of kvs key of Some v \<Rightarrow> Inr v | None \<Rightarrow> Inl (Exc KeyError (repr_str key)))"
| "py_getitem (JArr xs) key =
     Inl (Exc TypeError ''list indices must be integers or slices, not str'')"
| "py_getitem (JStr s) key =
     Inl (Exc TypeError (''string indices must be integers, not '' @ [CHR 0x27] @ ''str'' @ [CHR 0x27]))"
| "py_getitem v key =
     Inl (Exc TypeError ([CHR 0x27] @ type_name v @ [CHR 0x27] @ '' object is not subscriptable''))"

text \<open>\<open>key in v\<close> with a text key: a key of a dict, an element of a list, a substring.\<close>

fun has_substring :: "string \<Rightarrow> string \<Rightarrow> bool" where
  "has_substring pat [] = (pat = [])"
| "has_substring pat (c # cs) = (take (length pat) (c # cs) = pat \<or> has_substring pat cs)"

fun py_contains :: "string \<Rightarrow> json \<Rightarrow> error + bool" where
  "py_contains key (JObj kvs) = Inr (key \<in> set (map fst kvs))"
| "py_contains key (JArr xs) = Inr (JStr key \<in> set xs)"
| "py_contains key (JStr s) = Inr (has_substring key s)"
| "py_contains key v =
     Inl (Exc TypeError (''argument of type '' @ [CHR 0x27] @ type_name v @ [CHR 0x27]
                           @ '' is not iterable''))"

text \<open>\<open>for a in v\<close>: the elements of a list, the keys of a dict, the characters of a text.\<close>

fun py_iter :: "json \<Rightarrow> error + json list" where
  "py_iter (JArr xs) = Inr xs"
| "py_iter (JObj kvs) = Inr (map (\<lambda>kv. JStr (fst kv)) kvs)"
| "py_iter (JStr s) = Inr (map (\<lambda>c. JStr [c]) s)"
| "py_iter v =
     Inl (Exc TypeError ([CHR 0x27] @ type_name v @ [CHR 0x27] @ '' object is not iterable''))"

subsection \<open>Python dictionaries built by the script\<close>

text \<open>\<open>d[k] = v\<close>: an existing key keeps its place and gets the new value, a new key is added last.\<close>

fun dict_set :: "('k \<times> 'v) list \<Rightarrow> 'k \<Rightarrow> 'v \<Rightarrow> ('k \<times> 'v) list" where
  "dict_set [] k v = [(k, v)]"
| "dict_set (p # ps) k v = (if fst p = k then (k, v) # ps else p # dict_set ps k v)"

text \<open>A dict comprehension \<open>{key: value for ...}\<close> over the items in their order.\<close>

definition dict_of_items :: "('k \<times> 'v) list \<Rightarrow> ('k \<times> 'v) list" where
  "dict_of_items items = foldl (\<lambda>d kv. dict_set d (fst kv) (snd kv)) [] items"

subsection \<open>The remote server\<close>

text \<open>
  Modelled from the spec: the types of the slice file MumbleServer.ice, which is not
  among the sources. An ACL entry has the seven fields the script assigns and reads.
  A group definition is carried around only. The keys of a registration are the field
  indices of \<open>UserInfo\<close>, with \<open>UserName\<close> 0 and \<open>UserPassword\<close> 4 as in the script's
  \<open>name_map\<close>.
\<close>

record acl =
  applyHere :: bool
  applySubs :: bool
  inherited :: bool
  userid :: int
  group :: string
  allow :: int
  deny :: int

datatype murmur_group = Group (group_name: string) (group_members: "int list")

definition UserName :: int where "UserName = 0"
definition UserPassword :: int where "UserPassword = 4"

text \<open>A remote call, with the arguments the script passes.\<close>

datatype call =
    Call_registerUser "(int \<times> json) list"
  | Call_unregisterUser int
  | Call_updateRegistration int "(int \<times> json) list"
  | Call_getRegisteredUsers json
  | Call_setACL int "acl list" "murmur_group list" bool
  | Call_getACL int
  | Call_getRegistration int

text \<open>
  The server proxy: each remote procedure answers with a value or raises. Its answer may
  depend on the calls made before (the first argument), so any deterministic server is
  an instance.
\<close>

record server =
  registerUser :: "call list \<Rightarrow> (int \<times> json) list \<Rightarrow> error + int"
  unregisterUser :: "call list \<Rightarrow> int \<Rightarrow> error + unit"
  updateRegistration :: "call list \<Rightarrow> int \<Rightarrow> (int \<times> json) list \<Rightarrow> error + unit"
  getRegisteredUsers :: "call list \<Rightarrow> json \<Rightarrow> error + (int \<times> string) list"
  setACL :: "call list \<Rightarrow> int \<Rightarrow> acl list \<Rightarrow> murmur_group list \<Rightarrow> bool \<Rightarrow> error + unit"
  getACL :: "call list \<Rightarrow> int \<Rightarrow> error + (acl list \<times> murmur_group list \<times> bool)"
  getRegistration :: "call list \<Rightarrow> int \<Rightarrow> error + (int \<times> string) list"

subsection \<open>dispatch\<close>

text \<open>
  \<open>dispatch\<close> returns the value or the exception, and the remote calls it made.
  \<open>try_args\<close> evaluates arguments: an exception there ends the dispatch with no call.
  \<open>invoke\<close> is the remote call itself: it is recorded, and its answer is shaped.
\<close>

fun try_args :: "error + 'a \<Rightarrow> ('a \<Rightarrow> (error + json) \<times> call list) \<Rightarrow> (error + json) \<times> call list" where
  "try_args (Inl e) f = (Inl e, [])"
| "try_args (Inr x) f = f x"

fun invoke :: "call \<Rightarrow> error + 'a \<Rightarrow> ('a \<Rightarrow> json) \<Rightarrow> (error + json) \<times> call list" where
  "invoke c (Inl e) shape = (Inl e, [c])"
| "invoke c (Inr x) shape = (Inr (shape x), [c])"

text \<open>The \<open>info\<close> dict of updateRegistration: only the keys present in \<open>updates\<close>.\<close>

definition update_info :: "json \<Rightarrow> error + (int \<times> json) list" where
  "update_info updates =
     ebind (py_contains ''username'' updates) (\<lambda>has_name.
     ebind (if has_name
            then ebind (py_getitem updates ''username'') (\<lambda>v. Inr (dict_set [] UserName v))
            else Inr []) (\<lambda>info.
     ebind (py_contains ''password'' updates) (\<lambda>has_password.
       if has_password
       then ebind (py_getitem updates ''password'') (\<lambda>v. Inr (dict_set info UserPassword v))
       else Inr info)))"

text \<open>One pass of the loop of setACL: the entry \<open>a\<close> with defaults for its missing fields.\<close>

definition make_acl :: "json \<Rightarrow> error + acl" where
  "make_acl a =
     ebind (py_get a ''applyHere'' (JBool True)) (\<lambda>v1.
     ebind (py_get a ''applySubs'' (JBool True)) (\<lambda>v2.
     ebind (py_get a ''inherited'' (JBool False)) (\<lambda>v3.
     ebind (ebind (py_get a ''userid'' (JInt (- 1))) py_int) (\<lambda>v4.
     ebind (py_get a ''group'' (JStr [])) (\<lambda>v5.
     ebind (ebind (py_get a ''allow'' (JInt 0)) py_int) (\<lambda>v6.
     ebind (ebind (py_get a ''deny'' (JInt 0)) py_int) (\<lambda>v7.
       Inr \<lparr>applyHere = py_bool v1, applySubs = py_bool v2, inherited = py_bool v3,
            userid = v4, group = py_str v5, allow = v6, deny = v7\<rparr>)))))))"

text \<open>The loop of setACL: entries are appended in the order they are met.\<close>

fun make_acls :: "acl list \<Rightarrow> json list \<Rightarrow> error + acl list" where
  "make_acls acls [] = Inr acls"
| "make_acls acls (a # as) = ebind (make_acl a) (\<lambda>x. make_acls (acls @ [x]) as)"

text \<open>The dict of one entry in the answer of getACL.\<close>

definition acl_json :: "acl \<Rightarrow> json" where
  "acl_json a = JObj [(''applyHere'', JBool (applyHere a)),
                      (''applySubs'', JBool (applySubs a)),
                      (''inherited'', JBool (inherited a)),
                      (''userid'', JInt (userid a)),
                      (''group'', JStr (group a)),
                      (''allow'', JInt (allow a)),
                      (''deny'', JInt (deny a))]"

definition name_map :: "(int \<times> string) list" where
  "name_map = [(0, ''UserName''), (1, ''UserEmail''), (2, ''UserComment''), (3, ''UserHash''),
               (4, ''UserPassword''), (5, ''UserLastActive''), (6, ''UserKDFIterations'')]"

text \<open>\<open>name_map.get(int(k), str(k))\<close>\<close>

definition field_name :: "int \<Rightarrow> string" where
  "field_name k = (case map_of name_map k of Some n \<Rightarrow> n | None \<Rightarrow> str_int k)"

definition dispatch :: "server \<Rightarrow> call list \<Rightarrow> json \<Rightarrow> json \<Rightarrow> (error + json) \<times> call list" where
  "dispatch srv hist method params =
    (if method = JStr ''registerUser'' then
       try_args (py_getitem params ''username'') (\<lambda>username.
       try_args (py_getitem params ''password'') (\<lambda>password.
         let info = dict_set (dict_set [] UserName username) UserPassword password
         in invoke (Call_registerUser info) (registerUser srv hist info) JInt))
     else if method = JStr ''unregisterUser'' then
       try_args (ebind (py_getitem params ''userId'') py_int) (\<lambda>uid.
         invoke (Call_unregisterUser uid) (unregisterUser srv hist uid) (\<lambda>_. JNull))
     else if method = JStr ''updateRegistration'' then
       try_args (py_get params ''updates'' (JObj [])) (\<lambda>updates.
       try_args (update_info updates) (\<lambda>info.
       try_args (ebind (py_getitem params ''userId'') py_int) (\<lambda>uid.
         invoke (Call_updateRegistration uid info) (updateRegistration srv hist uid info)
           (\<lambda>_. JNull))))
     else if method = JStr ''getRegisteredUsers'' then
       try_args (py_get params ''filter'' (JStr [])) (\<lambda>flt.
         invoke (Call_getRegisteredUsers flt) (getRegisteredUsers srv hist flt)
           (\<lambda>result. JObj (dict_of_items (map (\<lambda>kv. (str_int (fst kv), JStr (snd kv))) result))))
     else if method = JStr ''setACL'' then
       try_args (ebind (py_get params ''acls'' (JArr [])) py_iter) (\<lambda>entries.
       try_args (make_acls [] entries) (\<lambda>acls.
       try_args (ebind (py_getitem params ''channelId'') py_int) (\<lambda>cid.
       try_args (py_get params ''inherit'' (JBool True)) (\<lambda>inh.
         invoke (Call_setACL cid acls [] (py_bool inh)) (setACL srv hist cid acls [] (py_bool inh))
           (\<lambda>_. JNull)))))
     else if method = JStr ''getACL'' then
       try_args (ebind (py_getitem params ''channelId'') py_int) (\<lambda>cid.
         invoke (Call_getACL cid) (getACL srv hist cid)
           (\<lambda>r. case r of (acls, groups, inherit) \<Rightarrow>
              JObj [(''acls'', JArr (map acl_json acls)), (''inherit'', JBool inherit)]))
     else if method = JStr ''getRegistration'' then
       try_args (ebind (py_getitem params ''userId'') py_int) (\<lambda>uid.
         invoke (Call_getRegistration uid) (getRegistration srv hist uid)
           (\<lambda>result. JObj (dict_of_items (map (\<lambda>kv. (field_name (fst kv), JStr (snd kv))) result))))
     else (Inl (Exc ValueError (''Unknown method: '' @ py_str method)), []))"

subsection \<open>The protocol loop\<close>

text \<open>
  What the process does is a list of events in the order they happen. \<open>Stdout v\<close> is one
  line \<open>print(json.dumps(v), flush=True)\<close>; \<open>Stderr d\<close> is a diagnostic on the error
  stream; \<open>Read l\<close> is one line taken from standard input; \<open>Remote c\<close> is a remote call;
  \<open>Created\<close> and \<open>Destroyed\<close> are \<open>Ice.initialize\<close> returning a communicator and
  \<open>communicator.destroy()\<close>.
\<close>

datatype diagnostic =
    Fatal error      \<comment> \<open>the line \<open>[mumble-ice] Fatal: ...\<close> and the traceback\<close>
  | Uncaught error   \<comment> \<open>the interpreter's traceback of an exception nobody caught\<close>

datatype event =
    Created
  | Destroyed
  | Stdout json
  | Stderr diagnostic
  | Read string
  | Remote call

definition em_dash :: string where
  "em_dash = [CHR 0xE2, CHR 0x80, CHR 0x94]"

text \<open>The three \<open>except\<close> clauses of the loop, in their order: the text of the error field.\<close>

definition error_message :: "error \<Rightarrow> string" where
  "error_message e =
     (if exc_type e = InvalidUserException \<or> exc_type e = InvalidChannelException
        then ''Murmur: '' @ class_name (exc_type e)
      else if exc_type e = InvalidSecretException
        then ''Murmur: InvalidSecret '' @ em_dash @ '' check MUMBLE_ICE_SECRET''
      else exc_str e)"

definition error_response :: "json \<Rightarrow> error \<Rightarrow> json" where
  "error_response req_id e = JObj [(''id'', req_id), (''error'', JStr (error_message e))]"

definition result_response :: "json \<Rightarrow> json \<Rightarrow> json" where
  "result_response req_id result = JObj [(''id'', req_id), (''result'', result)]"

text \<open>
  The body of the loop for one stripped, non-empty line: the response written and the
  remote calls made. \<open>req_id\<close> is the empty text until \<open>req.get('id', '')\<close> has returned.
\<close>

definition handle_line ::
  "server \<Rightarrow> (string \<Rightarrow> error + json) \<Rightarrow> call list \<Rightarrow> string \<Rightarrow> json \<times> call list" where
  "handle_line srv loads hist line =
     (case loads line of
        Inl e \<Rightarrow> (error_response (JStr []) e, [])
      | Inr req \<Rightarrow>
         (case py_get req ''id'' (JStr []) of
            Inl e \<Rightarrow> (error_response (JStr []) e, [])
          | Inr req_id \<Rightarrow>
             (case py_get req ''method'' (JStr []) of
                Inl e \<Rightarrow> (error_response req_id e, [])
              | Inr method \<Rightarrow>
                 (case py_get req ''params'' (JObj []) of
                    Inl e \<Rightarrow> (error_response req_id e, [])
                  | Inr params \<Rightarrow>
                     (case dispatch srv hist method params of
                        (Inl e, calls) \<Rightarrow> (error_response req_id e, calls)
                      | (Inr result, calls) \<Rightarrow> (result_response req_id result, calls))))))"

text \<open>\<open>for line in sys.stdin\<close>: the calls made so far are threaded through.\<close>

fun serve :: "server \<Rightarrow> (string \<Rightarrow> error + json) \<Rightarrow> call list \<Rightarrow> string list \<Rightarrow> event list" where
  "serve srv loads hist [] = []"
| "serve srv loads hist (l # ls) =
     (if py_strip l = [] then Read l # serve srv loads hist ls
      else case handle_line srv loads hist (py_strip l) of
             (response, calls) \<Rightarrow>
               Read l # map Remote calls @ [Stdout response] @ serve srv loads (hist @ calls) ls)"

subsection \<open>Startup and teardown\<close>

text \<open>
  The Ice runtime, as far as \<open>main\<close> uses it: whether \<open>Ice.initialize\<close> (with
  \<open>Ice.createProperties\<close>) raises, whether \<open>getImplicitContext().put('secret', secret)\<close>
  raises, whether \<open>stringToProxy\<close> raises, what \<open>MetaPrx.checkedCast\<close> answers (a proxy or
  \<open>None\<close>) and what \<open>meta.getServer\<close> answers (a server proxy or \<open>None\<close>).
\<close>

record ice =
  initialize :: "error option"
  put_secret :: "string \<Rightarrow> error option"
  stringToProxy :: "string \<Rightarrow> error option"
  checkedCast :: "error + bool"
  getServer :: "int \<Rightarrow> error + server option"

record environ =
  MUMBLE_HOST :: "string option"
  MUMBLE_ICE_PORT :: "string option"
  MUMBLE_ICE_SECRET :: "string option"

text \<open>\<open>os.environ.get(name, default)\<close>\<close>

definition getenv :: "string option \<Rightarrow> string \<Rightarrow> string" where
  "getenv v dflt = (case v of Some s \<Rightarrow> s | None \<Rightarrow> dflt)"

text \<open>
  \<open>create_communicator\<close>: the events, and whether it returns the communicator or raises.
  When \<open>put\<close> raises, the communicator exists but is not returned.
\<close>

definition create_communicator :: "ice \<Rightarrow> string \<Rightarrow> int \<Rightarrow> string \<Rightarrow> event list \<times> (error + unit)" where
  "create_communicator rt host port secret =
     (case initialize rt of
        Some e \<Rightarrow> ([], Inl e)
      | None \<Rightarrow>
          if secret \<noteq> [] then
            (case put_secret rt secret of
               Some e \<Rightarrow> ([Created], Inl e)
             | None \<Rightarrow> ([Created], Inr ()))
          else ([Created], Inr ()))"

text \<open>The rest of the session: the proxy, the cast to \<open>Murmur.Meta\<close>, virtual server 1.\<close>

definition connect :: "ice \<Rightarrow> string \<Rightarrow> int \<Rightarrow> error + server" where
  "connect rt host port =
     (case stringToProxy rt (''Meta:tcp -h '' @ host @ '' -p '' @ str_int port) of
        Some e \<Rightarrow> Inl e
      | None \<Rightarrow>
         (case checkedCast rt of
            Inl e \<Rightarrow> Inl e
          | Inr meta \<Rightarrow>
              if \<not> meta then
                Inl (Exc RuntimeError (''Cannot cast ICE proxy to Murmur.Meta '' @ em_dash
                                         @ '' wrong host/port?''))
              else
                (case getServer rt 1 of
                   Inl e \<Rightarrow> Inl e
                 | Inr None \<Rightarrow>
                     Inl (Exc RuntimeError (''getServer(1) returned null '' @ em_dash
                                              @ '' is virtual server 1 running?''))
                 | Inr (Some server) \<Rightarrow> Inr server)))"

definition ready :: json where
  "ready = JObj [(''ready'', JBool True)]"

text \<open>
  \<open>main\<close>: the events and the exit status. The port is converted before the \<open>try\<close>, so a
  failure there is caught by nobody. In the \<open>finally\<close> clause the variable \<open>communicator\<close>
  is set only if \<open>create_communicator\<close> has returned.
\<close>

definition main :: "environ \<Rightarrow> ice \<Rightarrow> (string \<Rightarrow> error + json) \<Rightarrow> string list \<Rightarrow> event list \<times> nat" where
  "main env rt loads lines =
     (let host = getenv (MUMBLE_HOST env) ''mumble'' in
      case py_int (JStr (getenv (MUMBLE_ICE_PORT env) ''6502'')) of
        Inl e \<Rightarrow> ([Stderr (Uncaught e)], 1)
      | Inr port \<Rightarrow>
         (let secret = getenv (MUMBLE_ICE_SECRET env) [] in
          case create_communicator rt host port secret of
            (evs, Inl e) \<Rightarrow> (evs @ [Stderr (Fatal e)], 1)
          | (evs, Inr communicator) \<Rightarrow>
             (case connect rt host port of
                Inl e \<Rightarrow> (evs @ [Stderr (Fatal e), Destroyed], 1)
              | Inr server \<Rightarrow>
                  (evs @ [Stdout ready] @ serve server loads [] lines @ [Destroyed], 0))))"

text \<open>Views of the events.\<close>

fun stdout_of :: "event list \<Rightarrow> json list" where
  "stdout_of [] = []"
| "stdout_of (Stdout v # es) = v # stdout_of es"
| "stdout_of (e # es) = stdout_of es"

fun stderr_of :: "event list \<Rightarrow> diagnostic list" where
  "stderr_of [] = []"
| "stderr_of (Stderr d # es) = d # stderr_of es"
| "stderr_of (e # es) = stderr_of es"

fun reads_of :: "event list \<Rightarrow> string list" where
  "reads_of [] = []"
| "reads_of (Read l # es) = l # reads_of es"
| "reads_of (e # es) = reads_of es"

fun calls_of :: "event list \<Rightarrow> call list" where
  "calls_of [] = []"
| "calls_of (Remote c # es) = c # calls_of es"
| "calls_of (e # es) = calls_of es"

subsection \<open>Concrete inputs\<close>

text \<open>
  A server, a parser restricted to a handful of request lines, a runtime and an
  environment, on which the theorems below are run. The request lines are those of the
  scenarios A to D of the specification, a JSON array, and a request with a user id that
  is no number.
\<close>

definition example_server :: server where
  "example_server =
     \<lparr>registerUser = (\<lambda>hist info. Inr 7),
      unregisterUser = (\<lambda>hist uid. if uid = 42 then Inr () else Inl (Exc InvalidUserException [])),
      updateRegistration = (\<lambda>hist uid info. Inr ()),
      getRegisteredUsers = (\<lambda>hist flt. Inr [(7, ''alice'')]),
      setACL = (\<lambda>hist cid acls groups inherit. Inr ()),
      getACL = (\<lambda>hist cid.
         if cid = 999 then Inl (Exc InvalidChannelException [])
         else Inr ([\<lparr>applyHere = True, applySubs = False, inherited = False, userid = 7,
                      group = [], allow = 1, deny = 2\<rparr>], [Group ''admin'' [7]], True)),
      getRegistration = (\<lambda>hist uid. Inr [(0, ''alice''), (1, ''alice@example.org''), (9, ''x'')])\<rparr>"

definition request_A :: string where
  "request_A = ''{\"id\":\"1\",\"method\":\"getRegisteredUsers\",\"params\":{}}''"

definition request_B :: string where
  "request_B = ''{\"id\":\"2\",\"method\":\"unregisterUser\",\"params\":{\"userId\":\"42\"}}''"

definition request_C :: string where
  "request_C = ''{\"id\":\"3\",\"method\":\"frobnicate\",\"params\":{}}''"

definition request_D :: string where
  "request_D = ''{\"id\":\"4\",\"method\":\"getACL\",\"params\":{\"channelId\":999}}''"

definition request_E :: string where
  "request_E = ''{\"id\":\"5\",\"method\":\"unregisterUser\",\"params\":{\"userId\":\"abc\"}}''"

definition example_requests :: "(string \<times> json) list" where
  "example_requests =
     [(request_A,
         JObj [(''id'', JStr ''1''), (''method'', JStr ''getRegisteredUsers''), (''params'', JObj [])]),
      (request_B,
         JObj [(''id'', JStr ''2''), (''method'', JStr ''unregisterUser''),
               (''params'', JObj [(''userId'', JStr ''42'')])]),
      (request_C,
         JObj [(''id'', JStr ''3''), (''method'', JStr ''frobnicate''), (''params'', JObj [])]),
      (request_D,
         JObj [(''id'', JStr ''4''), (''method'', JStr ''getACL''),
               (''params'', JObj [(''channelId'', JInt 999)])]),
      (''[1,2]'', JArr [JInt 1, JInt 2]),
      (request_E,
         JObj [(''id'', JStr ''5''), (''method'', JStr ''unregisterUser''),
               (''params'', JObj [(''userId'', JStr ''abc'')])])]"

definition example_loads :: "string \<Rightarrow> error + json" where
  "example_loads line =
     (case map_of example_requests line of
        Some v \<Rightarrow> Inr v
      | None \<Rightarrow> Inl (Exc (OtherException ''JSONDecodeError'')
                  ''Expecting value: line 1 column 1 (char 0)''))"

definition example_runtime :: ice where
  "example_runtime =
     \<lparr>initialize = None,
      put_secret = (\<lambda>secret. None),
      stringToProxy = (\<lambda>proxy. None),
      checkedCast = Inr True,
      getServer = (\<lambda>i. if i = 1 then Inr (Some example_server) else Inr None)\<rparr>"

definition example_environ :: environ where
  "example_environ =
     \<lparr>MUMBLE_HOST = Some ''murmur'', MUMBLE_ICE_PORT = None, MUMBLE_ICE_SECRET = Some ''s3cret''\<rparr>"

text \<open>
  Two runtimes that fail: one whose Meta proxy has no virtual server 1, and one whose
  communicator has no implicit context, so that \<open>getImplicitContext()\<close> is \<open>None\<close> and the call
  of \<open>put\<close> raises.
\<close>

definition no_server_runtime :: ice where
  "no_server_runtime = example_runtime\<lparr>getServer := (\<lambda>i. Inr None)\<rparr>"

definition no_context_runtime :: ice where
  "no_context_runtime =
     example_runtime\<lparr>put_secret := (\<lambda>secret. Some (Exc AttributeError
        ([CHR 0x27] @ ''NoneType'' @ [CHR 0x27] @ '' object has no attribute ''
           @ [CHR 0x27] @ ''put'' @ [CHR 0x27])))\<rparr>"

subsection \<open>Notions of the specification\<close>

text \<open>
  These two definitions follow the words of the specification, not the script: the id
  recovered from a request line (the \<open>id\<close> of the parsed object, the empty text when the
  line does not parse to an object or the object has no \<open>id\<close>), and what a response with a
  given id is (an object of exactly the two fields \<open>id\<close> and either \<open>result\<close> or \<open>error\<close>, the
  error being a text).
\<close>

definition recovered_id :: "(string \<Rightarrow> error + json) \<Rightarrow> string \<Rightarrow> json" where
  "recovered_id loads line =
     (case loads line of
        Inr (JObj req) \<Rightarrow> dict_get req ''id'' (JStr [])
      | _ \<Rightarrow> JStr [])"

fun is_response :: "json \<Rightarrow> json \<Rightarrow> bool" where
  "is_response rid (JObj [(k1, i), (k2, v)]) =
     (k1 = ''id'' \<and> i = rid \<and> (k2 = ''result'' \<or> (k2 = ''error'' \<and> type_name v = ''str'')))"
| "is_response rid v = False"

text \<open>
  The session, as the specification calls the outcome of the startup: the port taken
  from the environment, the communicator, and the server handle, in the order of \<open>main\<close>.
\<close>

definition session :: "environ \<Rightarrow> ice \<Rightarrow> error + server" where
  "session env rt =
     ebind (py_int (JStr (getenv (MUMBLE_ICE_PORT env) ''6502''))) (\<lambda>port.
     ebind (snd (create_communicator rt (getenv (MUMBLE_HOST env) ''mumble'') port
                   (getenv (MUMBLE_ICE_SECRET env) []))) (\<lambda>communicator.
       connect rt (getenv (MUMBLE_HOST env) ''mumble'') port))"

section \<open>Properties\<close>

subsection \<open>Views of an event list\<close>

lemma stdout_of_append: "stdout_of (xs @ ys) = stdout_of xs @ stdout_of ys"
  by (induction xs rule: stdout_of.induct) simp_all

lemma stderr_of_append: "stderr_of (xs @ ys) = stderr_of xs @ stderr_of ys"
  by (induction xs rule: stderr_of.induct) simp_all


lemma calls_of_append: "calls_of (xs @ ys) = calls_of xs @ calls_of ys"
  by (induction xs rule: calls_of.induct) simp_all

lemma views_of_Remote:
  "stdout_of (map Remote cs) = []" "stderr_of (map Remote cs) = []"
  "reads_of (map Remote cs) = []" "calls_of (map Remote cs) = cs"
  by (induction cs) simp_all

subsection \<open>Evaluation of digits\<close>

lemma digit_char_values:
  "digit_char 0 = CHR ''0''" "digit_char 1 = CHR ''1''" "digit_char 2 = CHR ''2''"
  "digit_char 3 = CHR ''3''" "digit_char 4 = CHR ''4''" "digit_char 5 = CHR ''5''"
  "digit_char 6 = CHR ''6''" "digit_char 7 = CHR ''7''" "digit_char 8 = CHR ''8''"
  "digit_char 9 = CHR ''9''"
  by code_simp+

lemma default_port: "int_of_text ''6502'' = Some 6502"
  by (simp add: int_of_text_def int_space_def is_digit_def digit_val_def)

subsection \<open>The dispatcher and one request\<close>

text \<open>
  For a line that parses to an object, the loop body is the dispatch of the object's
  method and parameters, wrapped into a response with the object's id.
\<close>

lemma handle_line_object:
  assumes "loads line = Inr (JObj req)"
  shows "handle_line srv loads hist line =
     (case dispatch srv hist (dict_get req ''method'' (JStr [])) (dict_get req ''params'' (JObj [])) of
        (Inl e, calls) \<Rightarrow> (error_response (dict_get req ''id'' (JStr [])) e, calls)
      | (Inr result, calls) \<Rightarrow> (result_response (dict_get req ''id'' (JStr [])) result, calls))"
  using assms by (simp add: handle_line_def)

lemma dispatch_unknown:
  assumes "method \<notin> JStr ` {''registerUser'', ''unregisterUser'', ''updateRegistration'',
       ''getRegisteredUsers'', ''setACL'', ''getACL'', ''getRegistration''}"
  shows "dispatch srv hist method params =
           (Inl (Exc ValueError (''Unknown method: '' @ py_str method)), [])"
  using assms by (simp add: dispatch_def)



lemma ebind_case:
  "ebind a f = (case a of Inl e \<Rightarrow> Inl e | Inr x \<Rightarrow> f x)"
  by (cases a) simp_all

lemma ebind_Inr_iff: "ebind a f = Inr y \<longleftrightarrow> (\<exists>x. a = Inr x \<and> f x = Inr y)"
  by (cases a) simp_all


lemma make_acls_only_if:
  "make_acls acc entries = Inr r \<Longrightarrow>
     \<exists>acls. r = acc @ acls \<and> list_all2 (\<lambda>a x. make_acl a = Inr x) entries acls"
proof (induction entries arbitrary: acc)
  case Nil
  then show ?case by simp
next
  case (Cons a as)
  then obtain x where x: "make_acl a = Inr x" "make_acls (acc @ [x]) as = Inr r"
    by (auto simp: ebind_Inr_iff)
  from Cons.IH [OF x(2)] obtain xs where "r = (acc @ [x]) @ xs"
    "list_all2 (\<lambda>a x. make_acl a = Inr x) as xs" by blast
  with x(1) show ?case by (intro exI [of _ "x # xs"]) simp
qed




text \<open>\<open>int\<close> raises nothing but \<open>ValueError\<close> and \<open>TypeError\<close>, which the loop reports by their text.\<close>

lemma py_int_raises:
  "py_int v = Inl e \<Longrightarrow> exc_type e = ValueError \<or> exc_type e = TypeError"
  by (cases v) (auto split: option.splits)

lemma py_int_error_message: "py_int v = Inl e \<Longrightarrow> error_message e = exc_str e"
  using py_int_raises [of v e] by (auto simp: error_message_def)

lemma handle_line_parse_error:
  "loads line = Inl e \<Longrightarrow> handle_line srv loads hist line = (error_response (JStr []) e, [])"
  by (simp add: handle_line_def)

lemma handle_line_not_object:
  assumes "loads line = Inr v" and "type_name v \<noteq> ''dict''"
  shows "handle_line srv loads hist line =
           (error_response (JStr [])
              (Exc AttributeError ([CHR 0x27] @ type_name v @ [CHR 0x27]
                 @ '' object has no attribute '' @ [CHR 0x27] @ ''get'' @ [CHR 0x27])), [])"
  using assms by (cases v) (simp_all add: handle_line_def)

lemma handle_line_is_response:
  "is_response (recovered_id loads s) (fst (handle_line srv loads hist s))"
proof (cases "loads s")
  case (Inl e)
  then show ?thesis
    by (simp add: handle_line_def recovered_id_def error_response_def)
next
  case (Inr v)
  show ?thesis
  proof (cases v)
    case (JObj req)
    with Inr show ?thesis
      by (simp add: handle_line_object recovered_id_def error_response_def result_response_def
            split: prod.splits sum.splits)
  qed (use Inr in \<open>simp_all add: handle_line_def recovered_id_def error_response_def\<close>)
qed

subsection \<open>Startup, loop and teardown together\<close>

text \<open>
  The loop writes responses only, so never the ready line; it creates and destroys no
  communicator and writes nothing to the error stream.
\<close>

lemma serve_writes_responses:
  "r \<in> set (stdout_of (serve srv loads hist lines)) \<Longrightarrow> \<exists>rid. is_response rid r"
proof (induction lines arbitrary: hist)
  case Nil
  then show ?case by simp
next
  case (Cons l ls)
  show ?case
  proof (cases "py_strip l = []")
    case True
    with Cons show ?thesis by simp
  next
    case False
    obtain response calls where h: "handle_line srv loads hist (py_strip l) = (response, calls)"
      by (cases "handle_line srv loads hist (py_strip l)")
    have "is_response (recovered_id loads (py_strip l)) response"
      using handle_line_is_response [of loads "py_strip l" srv hist] h by simp
    with False h Cons.prems Cons.IH [of "hist @ calls"] show ?thesis
      by (auto simp: stdout_of_append views_of_Remote)
  qed
qed

lemma ready_not_response: "ready \<notin> set (stdout_of (serve srv loads hist lines))"
proof
  assume "ready \<in> set (stdout_of (serve srv loads hist lines))"
  then obtain rid where "is_response rid ready" using serve_writes_responses by blast
  then show False by (simp add: ready_def)
qed

lemma serve_no_lifecycle:
  "Created \<notin> set (serve srv loads hist lines) \<and> Destroyed \<notin> set (serve srv loads hist lines)
   \<and> stderr_of (serve srv loads hist lines) = []"
proof (induction lines arbitrary: hist)
  case Nil
  show ?case by simp
next
  case (Cons l ls)
  show ?case
    using Cons [of hist] Cons [of "hist @ snd (handle_line srv loads hist (py_strip l))"]
    by (auto simp: stderr_of_append views_of_Remote split: prod.splits)
qed

text \<open>What \<open>main\<close> does when the session is established, and when it is not.\<close>

lemma session_Inr_iff:
  "session env rt = Inr server \<longleftrightarrow>
     (\<exists>port. py_int (JStr (getenv (MUMBLE_ICE_PORT env) ''6502'')) = Inr port
        \<and> initialize rt = None
        \<and> (getenv (MUMBLE_ICE_SECRET env) [] = []
             \<or> put_secret rt (getenv (MUMBLE_ICE_SECRET env) []) = None)
        \<and> stringToProxy rt (''Meta:tcp -h '' @ getenv (MUMBLE_HOST env) ''mumble'' @ '' -p ''
                              @ str_int port) = None
        \<and> checkedCast rt = Inr True
        \<and> getServer rt 1 = Inr (Some server))"
  by (cases "py_int (JStr (getenv (MUMBLE_ICE_PORT env) ''6502''))")
     (auto simp: session_def create_communicator_def connect_def
           split: option.splits sum.splits if_splits)

lemma main_success:
  assumes "session env rt = Inr server"
  shows "main env rt loads lines =
           (Created # Stdout ready # serve server loads [] lines @ [Destroyed], 0)"
  using assms
  by (cases "py_int (JStr (getenv (MUMBLE_ICE_PORT env) ''6502''))")
     (auto simp: session_def main_def create_communicator_def Let_def
           split: option.splits sum.splits if_splits)

lemma main_failure:
  assumes "session env rt = Inl e"
  shows "\<exists>evs. main env rt loads lines = (evs, 1) \<and> stdout_of evs = [] \<and> reads_of evs = []
            \<and> calls_of evs = [] \<and> (stderr_of evs = [Fatal e] \<or> stderr_of evs = [Uncaught e])"
  using assms
  by (cases "py_int (JStr (getenv (MUMBLE_ICE_PORT env) ''6502''))")
     (auto simp: session_def main_def create_communicator_def Let_def
           split: option.splits sum.splits if_splits)

lemma example_session: "session example_environ example_runtime = Inr example_server"
  by (simp add: session_def example_environ_def example_runtime_def getenv_def
        create_communicator_def connect_def int_of_text_def int_space_def is_digit_def digit_val_def)

text \<open>
  How often a communicator is created and destroyed: it is destroyed once exactly when
  \<open>create_communicator\<close> has returned it.
\<close>

lemma teardown_counts:
  "count_list (fst (main env rt loads lines)) Created =
     (if (\<exists>port. py_int (JStr (getenv (MUMBLE_ICE_PORT env) ''6502'')) = Inr port)
         \<and> initialize rt = None then 1 else 0)
   \<and> count_list (fst (main env rt loads lines)) Destroyed =
     (if (\<exists>port. py_int (JStr (getenv (MUMBLE_ICE_PORT env) ''6502'')) = Inr port)
         \<and> initialize rt = None
         \<and> (getenv (MUMBLE_ICE_SECRET env) [] = []
              \<or> put_secret rt (getenv (MUMBLE_ICE_SECRET env) []) = None) then 1 else 0)"
  using serve_no_lifecycle
  by (cases "py_int (JStr (getenv (MUMBLE_ICE_PORT env) ''6502''))")
     (auto simp: main_def create_communicator_def Let_def count_list_0_iff
           split: option.splits sum.splits if_splits)

text \<open>
  Claim C3. A request whose method is not one of the seven names of the operation table
  makes no remote call, and its response is the error \<open>Unknown method: <method>\<close>.
  The method is shown as Python's \<open>str\<close> shows it, which for a text is the text itself;
  a request without a method has the empty text as its method.
\<close>

theorem unknown_method_is_local_error:
  assumes "loads line = Inr (JObj req)"
    and "method = dict_get req ''method'' (JStr [])"
    and "method \<notin> JStr ` {''registerUser'', ''unregisterUser'', ''updateRegistration'',
       ''getRegisteredUsers'', ''setACL'', ''getACL'', ''getRegistration''}"
  shows "dispatch srv hist method params =
             (Inl (Exc ValueError (''Unknown method: '' @ py_str method)), [])
       \<and> handle_line srv loads hist line =
             (JObj [(''id'', dict_get req ''id'' (JStr [])),
                    (''error'', JStr (''Unknown method: '' @ py_str method))], [])"
proof -
  have d: "\<And>p. dispatch srv hist method p =
             (Inl (Exc ValueError (''Unknown method: '' @ py_str method)), [])"
    using assms(3) by (rule dispatch_unknown)
  have "handle_line srv loads hist line =
          (error_response (dict_get req ''id'' (JStr [])) (Exc ValueError (''Unknown method: '' @ py_str method)), [])"
    using assms(1) d[of "dict_get req ''params'' (JObj [])"] assms(2)
    by (simp add: handle_line_object)
  then show ?thesis using d by (simp add: error_response_def error_message_def)
qed

theorem unknown_method_is_local_error_witness:
  "dispatch example_server [] (JStr ''frobnicate'') (JObj []) =
      (Inl (Exc ValueError ''Unknown method: frobnicate''), [])
   \<and> handle_line example_server example_loads [] request_C =
      (JObj [(''id'', JStr ''3''), (''error'', JStr ''Unknown method: frobnicate'')], [])"
proof -
  have l: "example_loads request_C =
     Inr (JObj [(''id'', JStr ''3''), (''method'', JStr ''frobnicate''), (''params'', JObj [])])"
    by (simp add: example_loads_def example_requests_def request_A_def request_B_def
          request_C_def request_D_def)
  have m: "JStr ''frobnicate'' =
     dict_get [(''id'', JStr ''3''), (''method'', JStr ''frobnicate''), (''params'', JObj [])]
       ''method'' (JStr [])"
    by (simp add: dict_get_def)
  have n: "JStr ''frobnicate'' \<notin> JStr ` {''registerUser'', ''unregisterUser'', ''updateRegistration'',
       ''getRegisteredUsers'', ''setACL'', ''getACL'', ''getRegistration''}"
    by simp
  show ?thesis
    using unknown_method_is_local_error
            [of example_loads request_C
                "[(''id'', JStr ''3''), (''method'', JStr ''frobnicate''), (''params'', JObj [])]"
                "JStr ''frobnicate''" example_server "[]" "JObj []"] l m n
    by (simp add: dict_get_def)
qed

subsection \<open>Keys of the result dictionaries\<close>

text \<open>A dict comprehension over items with distinct keys keeps all the items, in order.\<close>

lemma dict_set_fresh: "k \<notin> fst ` set d \<Longrightarrow> dict_set d k v = d @ [(k, v)]"
  by (induction d) auto

lemma foldl_dict_set:
  "distinct (map fst (d @ items)) \<Longrightarrow>
     foldl (\<lambda>d kv. dict_set d (fst kv) (snd kv)) d items = d @ items"
proof (induction items arbitrary: d)
  case Nil
  show ?case by simp
next
  case (Cons kv items)
  have fresh: "fst kv \<notin> fst ` set d" using Cons.prems by auto
  have "distinct (map fst ((d @ [kv]) @ items))" using Cons.prems by simp
  from Cons.IH [OF this] show ?case
    using fresh by (simp add: dict_set_fresh)
qed

lemma dict_of_items_distinct: "distinct (map fst items) \<Longrightarrow> dict_of_items items = items"
  using foldl_dict_set [of "[]" items] by (simp add: dict_of_items_def)

text \<open>
  The decimal text of a natural number consists of digits and determines the number;
  so \<open>str\<close> is injective on the integers, and so is the naming of registration fields.
\<close>

lemma digit_val_digit_char: "d < 10 \<Longrightarrow> digit_val (digit_char d) = d"
  by (simp add: digit_val_def digit_char_def)

lemma is_digit_digit_char: "d < 10 \<Longrightarrow> is_digit (digit_char d)"
  by (simp add: is_digit_def digit_char_def)

lemma digits_nat_value: "foldl (\<lambda>a c. 10 * a + digit_val c) 0 (digits_nat n) = n"
proof (induction n rule: digits_nat.induct)
  case (1 n)
  show ?case
  proof (cases "n < 10")
    case True
    then show ?thesis by (subst digits_nat.simps) (simp add: digit_val_digit_char)
  next
    case False
    with 1 have "foldl (\<lambda>a c. 10 * a + digit_val c) 0 (digits_nat (n div 10)) = n div 10"
      by simp
    with False show ?thesis
      by (subst digits_nat.simps) (simp add: digit_val_digit_char)
  qed
qed

lemma digits_nat_inj: "digits_nat m = digits_nat n \<Longrightarrow> m = n"
  by (metis digits_nat_value)

lemma digits_nat_digits: "c \<in> set (digits_nat n) \<Longrightarrow> is_digit c"
proof (induction n rule: digits_nat.induct)
  case (1 n)
  show ?case
  proof (cases "n < 10")
    case True
    with 1(2) show ?thesis
      by (subst (asm) digits_nat.simps) (simp add: is_digit_digit_char)
  next
    case False
    with 1 show ?thesis
      by (subst (asm) (2) digits_nat.simps) (auto simp: is_digit_digit_char)
  qed
qed

lemma digits_nat_nonempty: "digits_nat n \<noteq> []"
  by (subst digits_nat.simps) simp

lemma str_int_head: "str_int i \<noteq> [] \<and> (hd (str_int i) = CHR ''-'' \<or> is_digit (hd (str_int i)))"
  using digits_nat_nonempty [of "nat i"] digits_nat_digits [of "hd (digits_nat (nat i))" "nat i"]
  by (simp add: str_int_def)


lemma str_int_inj: "str_int i = str_int j \<Longrightarrow> i = j"
proof -
  assume eq: "str_int i = str_int j"
  have minus: "\<And>n. CHR ''-'' \<notin> set (digits_nat n)"
  proof
    fix n assume "CHR ''-'' \<in> set (digits_nat n)"
    then have "is_digit CHR ''-''" by (rule digits_nat_digits)
    then show False by (simp add: is_digit_def)
  qed
  consider (nn) "i < 0" "j < 0" | (pp) "0 \<le> i" "0 \<le> j" | (np) "i < 0" "0 \<le> j" | (pn) "0 \<le> i" "j < 0"
    by linarith
  then show ?thesis
  proof cases
    case nn
    with eq have "digits_nat (nat (- i)) = digits_nat (nat (- j))" by (simp add: str_int_def)
    then have "nat (- i) = nat (- j)" by (rule digits_nat_inj)
    with nn show ?thesis by simp
  next
    case pp
    with eq have "digits_nat (nat i) = digits_nat (nat j)" by (simp add: str_int_def)
    then have "nat i = nat j" by (rule digits_nat_inj)
    with pp show ?thesis by simp
  next
    case np
    with eq have "CHR ''-'' # digits_nat (nat (- i)) = digits_nat (nat j)" by (simp add: str_int_def)
    then have "CHR ''-'' \<in> set (digits_nat (nat j))" by (metis list.set_intros(1))
    with minus show ?thesis by blast
  next
    case pn
    with eq have "digits_nat (nat i) = CHR ''-'' # digits_nat (nat (- j))" by (simp add: str_int_def)
    then have "CHR ''-'' \<in> set (digits_nat (nat i))" by (metis list.set_intros(1))
    with minus show ?thesis by blast
  qed
qed

lemma str_int_not_name: "hd s = CHR ''U'' \<Longrightarrow> str_int i \<noteq> s"
  using str_int_head [of i] by (auto simp: is_digit_def)

lemma field_name_known:
  "field_name 0 = ''UserName''" "field_name 1 = ''UserEmail''" "field_name 2 = ''UserComment''"
  "field_name 3 = ''UserHash''" "field_name 4 = ''UserPassword''"
  "field_name 5 = ''UserLastActive''" "field_name 6 = ''UserKDFIterations''"
  by (simp_all add: field_name_def name_map_def)

lemma field_name_other: "k < 0 \<or> 6 < k \<Longrightarrow> field_name k = str_int k"
  by (auto simp: field_name_def name_map_def)

lemma field_name_inj: "field_name i = field_name j \<Longrightarrow> i = j"
proof -
  assume eq: "field_name i = field_name j"
  have range: "\<And>k::int. k < 0 \<or> 6 < k \<or> k \<in> {0, 1, 2, 3, 4, 5, 6}" by auto
  have known: "\<And>k. k \<in> {0, 1, 2, 3, 4, 5, 6} \<Longrightarrow> hd (field_name k) = CHR ''U''"
    by (auto simp: field_name_known)
  show ?thesis
  proof (cases "i < 0 \<or> 6 < i")
    case True
    note i = this
    show ?thesis
    proof (cases "j < 0 \<or> 6 < j")
      case True
      with i eq show ?thesis by (simp add: field_name_other str_int_inj)
    next
      case False
      with range [of j] have "hd (field_name j) = CHR ''U''" using known by blast
      then have "str_int i \<noteq> field_name j" by (rule str_int_not_name)
      with i eq show ?thesis by (simp add: field_name_other)
    qed
  next
    case False
    with range [of i] have ik: "i \<in> {0, 1, 2, 3, 4, 5, 6}" by blast
    show ?thesis
    proof (cases "j < 0 \<or> 6 < j")
      case True
      from ik have "hd (field_name i) = CHR ''U''" by (rule known)
      then have "str_int j \<noteq> field_name i" by (rule str_int_not_name)
      with True eq show ?thesis by (simp add: field_name_other)
    next
      case False
      with range [of j] have "j \<in> {0, 1, 2, 3, 4, 5, 6}" by blast
      with ik eq show ?thesis by (auto simp: field_name_known)
    qed
  qed
qed

lemma distinct_map_inj:
  assumes "distinct (map fst items)" and "\<And>a b. f a = f b \<Longrightarrow> a = b"
  shows "distinct (map fst (map (\<lambda>kv. (f (fst kv), g (snd kv))) items))"
proof -
  have "map fst (map (\<lambda>kv. (f (fst kv), g (snd kv))) items) = map f (map fst items)"
    by simp
  moreover have "inj f" using assms(2) by (auto simp: inj_on_def)
  ultimately show ?thesis using assms(1)
    by (simp only: distinct_map) (blast intro: inj_on_subset)
qed

text \<open>The text of an integer reads back as that integer: \<open>int(str(i)) == i\<close>.\<close>

lemma parse_digits_all_digits:
  "\<forall>c \<in> set xs. is_digit c \<Longrightarrow>
     parse_digits acc p xs =
       (if xs = [] \<and> \<not> p then None else Some (foldl (\<lambda>a c. 10 * a + digit_val c) acc xs))"
  by (induction xs arbitrary: acc p) auto

lemma parse_digits_digits_nat: "parse_digits 0 False (digits_nat n) = Some n"
  using parse_digits_all_digits [of "digits_nat n" 0 False] digits_nat_digits [of _ n]
  by (simp add: digits_nat_nonempty digits_nat_value)

lemma dropWhile_id: "xs \<noteq> [] \<Longrightarrow> \<not> P (hd xs) \<Longrightarrow> dropWhile P xs = xs"
  by (cases xs) simp_all

lemma digit_not_space: "is_digit c \<Longrightarrow> \<not> int_space c \<and> c \<noteq> CHR ''-'' \<and> c \<noteq> CHR ''+''"
  by (auto simp: is_digit_def int_space_def)

lemma strip_str_int:
  "rev (dropWhile int_space (rev (dropWhile int_space (str_int i)))) = str_int i"
proof -
  have ne: "str_int i \<noteq> []" using str_int_head by blast
  have "\<not> int_space (hd (str_int i))"
    using str_int_head [of i] digit_not_space by (auto simp: int_space_def)
  then have front: "dropWhile int_space (str_int i) = str_int i"
    using ne by (simp add: dropWhile_id)
  have "last (str_int i) \<in> set (digits_nat (nat (- i))) \<or> last (str_int i) \<in> set (digits_nat (nat i))"
    using digits_nat_nonempty by (auto simp: str_int_def)
  then have "is_digit (last (str_int i))" using digits_nat_digits by blast
  then have "\<not> int_space (hd (rev (str_int i)))"
    using ne digit_not_space by (simp add: hd_rev)
  then have "dropWhile int_space (rev (str_int i)) = rev (str_int i)"
    using ne by (simp add: dropWhile_id)
  with front show ?thesis by simp
qed

lemma int_of_text_str_int: "int_of_text (str_int i) = Some i"
proof (cases "i < 0")
  case True
  then show ?thesis
    unfolding int_of_text_def Let_def strip_str_int
    by (simp add: str_int_def parse_digits_digits_nat)
next
  case False
  obtain c cs where d: "digits_nat (nat i) = c # cs"
    using digits_nat_nonempty [of "nat i"] by (cases "digits_nat (nat i)") auto
  then have "is_digit c" using digits_nat_digits [of c "nat i"] by simp
  then have "c \<noteq> CHR ''-''" "c \<noteq> CHR ''+''" using digit_not_space by blast+
  moreover have "parse_digits 0 False (c # cs) = Some (nat i)"
    using parse_digits_digits_nat [of "nat i"] d by simp
  ultimately show ?thesis
    using False d
    unfolding int_of_text_def Let_def strip_str_int
    by (simp add: str_int_def del: parse_digits.simps)
qed

lemma py_int_str_int: "py_int (JStr (str_int i)) = Inr i"
  by (simp add: int_of_text_str_int)




text \<open>
  Claim C6. The server answers getRegisteredUsers and getRegistration with a dictionary
  keyed by integers (distinct, as the keys of a dictionary are). The result of
  getRegisteredUsers has one field for each user, in the server's order, whose key is the
  decimal text of the user id and whose value is the name. The result of getRegistration
  has one field for each registration field: its key is the fixed name for the indices 0
  to 6, and the decimal text of the index for any other index. No two keys collide, so no
  entry is lost, and the decimal text reads back as the number. The keys of a JSON object
  of the model are texts by their type.
\<close>

theorem string_keyed_results:
  assumes "distinct (map fst result)"
  shows "(py_get params ''filter'' (JStr []) = Inr flt
            \<and> getRegisteredUsers srv hist flt = Inr result
          \<longrightarrow> dispatch srv hist (JStr ''getRegisteredUsers'') params =
                (Inr (JObj (map (\<lambda>kv. (str_int (fst kv), JStr (snd kv))) result)),
                 [Call_getRegisteredUsers flt]))
       \<and> (ebind (py_getitem params ''userId'') py_int = Inr uid
            \<and> getRegistration srv hist uid = Inr result
          \<longrightarrow> dispatch srv hist (JStr ''getRegistration'') params =
                (Inr (JObj (map (\<lambda>kv. (field_name (fst kv), JStr (snd kv))) result)),
                 [Call_getRegistration uid]))
       \<and> field_name 0 = ''UserName'' \<and> field_name 1 = ''UserEmail''
       \<and> field_name 2 = ''UserComment'' \<and> field_name 3 = ''UserHash''
       \<and> field_name 4 = ''UserPassword'' \<and> field_name 5 = ''UserLastActive''
       \<and> field_name 6 = ''UserKDFIterations''
       \<and> (\<forall>k. k < 0 \<or> 6 < k \<longrightarrow> field_name k = str_int k)
       \<and> (\<forall>k. py_int (JStr (str_int k)) = Inr k)"
proof -
  have users: "dict_of_items (map (\<lambda>kv. (str_int (fst kv), JStr (snd kv))) result)
                 = map (\<lambda>kv. (str_int (fst kv), JStr (snd kv))) result"
    using assms str_int_inj by (intro dict_of_items_distinct distinct_map_inj)
  have fields: "dict_of_items (map (\<lambda>kv. (field_name (fst kv), JStr (snd kv))) result)
                 = map (\<lambda>kv. (field_name (fst kv), JStr (snd kv))) result"
    using assms field_name_inj by (intro dict_of_items_distinct distinct_map_inj)
  show ?thesis
    using users fields
    by (simp add: dispatch_def field_name_known field_name_other int_of_text_str_int)
qed

theorem string_keyed_results_witness:
  "dispatch example_server [] (JStr ''getRegisteredUsers'') (JObj []) =
     (Inr (JObj [(''7'', JStr ''alice'')]), [Call_getRegisteredUsers (JStr [])])
   \<and> dispatch example_server [] (JStr ''getRegistration'') (JObj [(''userId'', JInt 7)]) =
     (Inr (JObj [(''UserName'', JStr ''alice''), (''UserEmail'', JStr ''alice@example.org''),
                 (''9'', JStr ''x'')]),
      [Call_getRegistration 7])"
proof -
  have d1: "distinct (map fst [(7::int, ''alice'')])" by simp
  have d2: "distinct (map fst [(0::int, ''alice''), (1, ''alice@example.org''), (9, ''x'')])"
    by simp
  have s: "str_int 7 = ''7''" "str_int 9 = ''9''" by code_simp+
  show ?thesis
    using string_keyed_results [OF d1, of "JObj []" "JStr []" example_server "[]"]
          string_keyed_results [OF d2, of "JObj [(''userId'', JInt 7)]" "JStr []" example_server "[]" 7]
    by (simp add: example_server_def dict_get_def field_name_known field_name_other s)
qed



text \<open>
  Claim C8. The result of getACL is an object with exactly two fields: \<open>acls\<close>, the list of
  the entries in the order the server gave them, each with the fields applyHere,
  applySubs, inherited, userid, group, allow and deny, and the boolean \<open>inherit\<close>. The
  group definitions the server returned are not part of it.
\<close>

theorem getACL_result_shape:
  assumes "ebind (py_getitem params ''channelId'') py_int = Inr cid"
    and "getACL srv hist cid = Inr (acls, groups, inherit)"
  shows "dispatch srv hist (JStr ''getACL'') params =
           (Inr (JObj [(''acls'', JArr (map (\<lambda>a. JObj [(''applyHere'', JBool (applyHere a)),
                                                        (''applySubs'', JBool (applySubs a)),
                                                        (''inherited'', JBool (inherited a)),
                                                        (''userid'', JInt (userid a)),
                                                        (''group'', JStr (group a)),
                                                        (''allow'', JInt (allow a)),
                                                        (''deny'', JInt (deny a))]) acls)),
                       (''inherit'', JBool inherit)]),
            [Call_getACL cid])"
  using assms by (simp add: dispatch_def acl_json_def)

theorem getACL_result_shape_witness:
  "dispatch example_server [] (JStr ''getACL'') (JObj [(''channelId'', JStr ''5'')]) =
     (Inr (JObj [(''acls'', JArr [JObj [(''applyHere'', JBool True), (''applySubs'', JBool False),
                                        (''inherited'', JBool False), (''userid'', JInt 7),
                                        (''group'', JStr []), (''allow'', JInt 1),
                                        (''deny'', JInt 2)]]),
                 (''inherit'', JBool True)]),
      [Call_getACL 5])"
proof -
  have c: "ebind (py_getitem (JObj [(''channelId'', JStr ''5'')]) ''channelId'') py_int = Inr 5"
    by (simp add: int_of_text_def int_space_def is_digit_def digit_val_def)
  have g: "getACL example_server [] 5 =
     Inr ([\<lparr>applyHere = True, applySubs = False, inherited = False, userid = 7,
             group = [], allow = 1, deny = 2\<rparr>], [Group ''admin'' [7]], True)"
    by (simp add: example_server_def)
  show ?thesis using getACL_result_shape [OF c g] by simp
qed

subsection \<open>The loop\<close>



text \<open>
  Claim C4. Whatever is raised while one request is handled (by the parser, or by the
  dispatcher and the remote call) becomes the text of the error field of the one response
  of that request: \<open>Murmur: InvalidUserException\<close> or \<open>Murmur: InvalidChannelException\<close>
  for the two entity-not-found exceptions, the fixed text
  \<open>Murmur: InvalidSecret - check MUMBLE_ICE_SECRET\<close> (with an em dash, here its three
  UTF-8 bytes) for an invalid secret, and \<open>str(e)\<close> for any other exception. The loop
  then goes on with the next line, on the same server proxy.
\<close>

theorem failure_translation:
  assumes "py_strip l \<noteq> []"
    and "(loads (py_strip l) = Inl e \<and> rid = JStr [] \<and> calls = [])
       \<or> (\<exists>req. loads (py_strip l) = Inr (JObj req) \<and> rid = dict_get req ''id'' (JStr [])
              \<and> dispatch srv hist (dict_get req ''method'' (JStr []))
                    (dict_get req ''params'' (JObj [])) = (Inl e, calls))"
  shows "serve srv loads hist (l # ls) =
           Read l # map Remote calls
           @ Stdout (JObj [(''id'', rid), (''error'', JStr (error_message e))])
           # serve srv loads (hist @ calls) ls
       \<and> (exc_type e = InvalidUserException \<longrightarrow> error_message e = ''Murmur: InvalidUserException'')
       \<and> (exc_type e = InvalidChannelException \<longrightarrow>
             error_message e = ''Murmur: InvalidChannelException'')
       \<and> (exc_type e = InvalidSecretException \<longrightarrow>
             error_message e = ''Murmur: InvalidSecret '' @ [CHR 0xE2, CHR 0x80, CHR 0x94]
                                 @ '' check MUMBLE_ICE_SECRET'')
       \<and> (exc_type e \<notin> {InvalidUserException, InvalidChannelException, InvalidSecretException}
             \<longrightarrow> error_message e = exc_str e)"
proof -
  have h: "handle_line srv loads hist (py_strip l) = (error_response rid e, calls)"
    using assms(2)
  proof
    assume "loads (py_strip l) = Inl e \<and> rid = JStr [] \<and> calls = []"
    then show ?thesis by (simp add: handle_line_parse_error)
  next
    assume "\<exists>req. loads (py_strip l) = Inr (JObj req) \<and> rid = dict_get req ''id'' (JStr [])
              \<and> dispatch srv hist (dict_get req ''method'' (JStr []))
                    (dict_get req ''params'' (JObj [])) = (Inl e, calls)"
    then obtain req where "loads (py_strip l) = Inr (JObj req)"
      and "rid = dict_get req ''id'' (JStr [])"
      and "dispatch srv hist (dict_get req ''method'' (JStr []))
                    (dict_get req ''params'' (JObj [])) = (Inl e, calls)"
      by blast
    then show ?thesis by (simp add: handle_line_object)
  qed
  have s: "serve srv loads hist (l # ls) =
           Read l # map Remote calls
           @ Stdout (JObj [(''id'', rid), (''error'', JStr (error_message e))])
           # serve srv loads (hist @ calls) ls"
    using assms(1) h by (simp add: error_response_def)
  have m: "(exc_type e = InvalidUserException \<longrightarrow> error_message e = ''Murmur: InvalidUserException'')
       \<and> (exc_type e = InvalidChannelException \<longrightarrow>
             error_message e = ''Murmur: InvalidChannelException'')
       \<and> (exc_type e = InvalidSecretException \<longrightarrow>
             error_message e = ''Murmur: InvalidSecret '' @ [CHR 0xE2, CHR 0x80, CHR 0x94]
                                 @ '' check MUMBLE_ICE_SECRET'')
       \<and> (exc_type e \<notin> {InvalidUserException, InvalidChannelException, InvalidSecretException}
             \<longrightarrow> error_message e = exc_str e)"
    by (simp add: error_message_def em_dash_def)
  from s m show ?thesis by blast
qed

theorem failure_translation_witness:
  "serve example_server example_loads [] [request_D, request_A] =
     [Read request_D, Remote (Call_getACL 999),
      Stdout (JObj [(''id'', JStr ''4''), (''error'', JStr ''Murmur: InvalidChannelException'')]),
      Read request_A, Remote (Call_getRegisteredUsers (JStr [])),
      Stdout (JObj [(''id'', JStr ''1''), (''result'', JObj [(''7'', JStr ''alice'')])])]"
proof -
  have s: "py_strip request_D = request_D" "py_strip request_D \<noteq> []"
    by (simp_all add: py_strip_def is_space_def request_D_def)
  have l: "example_loads request_D =
     Inr (JObj [(''id'', JStr ''4''), (''method'', JStr ''getACL''),
                (''params'', JObj [(''channelId'', JInt 999)])])"
    by (simp add: example_loads_def example_requests_def request_A_def request_B_def
          request_C_def request_D_def)
  have d: "dispatch example_server [] (JStr ''getACL'') (JObj [(''channelId'', JInt 999)]) =
             (Inl (Exc InvalidChannelException []), [Call_getACL 999])"
    by (simp add: dispatch_def dict_get_def example_server_def)
  have r: "serve example_server example_loads [Call_getACL 999] [request_A] =
     [Read request_A, Remote (Call_getRegisteredUsers (JStr [])),
      Stdout (JObj [(''id'', JStr ''1''), (''result'', JObj [(''7'', JStr ''alice'')])])]"
    by code_simp
  show ?thesis
    using failure_translation
            [of request_D example_loads "Exc InvalidChannelException []" "JStr ''4''"
                "[Call_getACL 999]" example_server "[]" "[request_A]"]
          s l d r
    by (simp add: dict_get_def)
qed

text \<open>
  Claim C10. A line that parses as JSON but not to an object (an array, a number, a text,
  \<open>true\<close>, \<open>false\<close>, \<open>null\<close>) gets exactly one error response with the empty text as id:
  \<open>req.get\<close> raises \<open>AttributeError\<close>, which the last \<open>except\<close> clause reports. No remote
  call is made, and the loop goes on with the next line.
\<close>

theorem non_object_request_gets_error:
  assumes "py_strip l \<noteq> []"
    and "loads (py_strip l) = Inr v"
    and "type_name v \<noteq> ''dict''"
  shows "serve srv loads hist (l # ls) =
           Read l
           # Stdout (JObj [(''id'', JStr []),
                           (''error'', JStr ([CHR 0x27] @ type_name v @ [CHR 0x27]
                               @ '' object has no attribute '' @ [CHR 0x27] @ ''get'' @ [CHR 0x27]))])
           # serve srv loads hist ls"
  using assms handle_line_not_object [of loads "py_strip l" v srv hist]
  by (simp add: error_response_def error_message_def)

theorem non_object_request_gets_error_witness:
  "serve example_server example_loads [] [''[1,2]'', request_C] =
     [Read ''[1,2]'',
      Stdout (JObj [(''id'', JStr []),
                    (''error'', JStr ([CHR 0x27] @ ''list'' @ [CHR 0x27]
                        @ '' object has no attribute '' @ [CHR 0x27] @ ''get'' @ [CHR 0x27]))]),
      Read request_C,
      Stdout (JObj [(''id'', JStr ''3''), (''error'', JStr ''Unknown method: frobnicate'')])]"
proof -
  have s: "py_strip ''[1,2]'' = ''[1,2]''"
    by (simp add: py_strip_def is_space_def)
  have l: "example_loads (py_strip ''[1,2]'') = Inr (JArr [JInt 1, JInt 2])"
    unfolding s
    by (simp add: example_loads_def example_requests_def request_A_def request_B_def
          request_C_def request_D_def)
  have r: "serve example_server example_loads [] [request_C] =
     [Read request_C,
      Stdout (JObj [(''id'', JStr ''3''), (''error'', JStr ''Unknown method: frobnicate'')])]"
    by (simp add: py_strip_def is_space_def example_loads_def example_requests_def request_A_def
          request_B_def request_C_def request_D_def handle_line_def dict_get_def dispatch_def
          error_response_def error_message_def)
  show ?thesis
    using non_object_request_gets_error
            [of "''[1,2]''" example_loads "JArr [JInt 1, JInt 2]" example_server "[]" "[request_C]"]
          s l r
    by simp
qed

subsection \<open>The process\<close>

text \<open>
  Claim C2. The line \<open>{"ready": true}\<close> is written at most once. It is written only when the
  session is established, that is when the communicator was created, the cast to the Meta
  proxy gave a proxy and virtual server 1 gave a server handle; it is then the first line
  written, before any line is read. When the startup fails (among others: the
  communicator cannot be created, the cast gives no proxy, there is no server 1), the
  process writes one diagnostic to the error stream and exits with status 1, having
  written nothing to standard output, read no line and made no call on a server.
\<close>

theorem ready_only_after_session:
  "(\<forall>srv. session env rt = Inr srv \<longrightarrow>
       main env rt loads lines =
         (Created # Stdout ready # serve srv loads [] lines @ [Destroyed], 0)
       \<and> count_list (stdout_of (fst (main env rt loads lines))) ready = 1)
   \<and> (\<forall>e. session env rt = Inl e \<longrightarrow>
          stdout_of (fst (main env rt loads lines)) = []
        \<and> reads_of (fst (main env rt loads lines)) = []
        \<and> calls_of (fst (main env rt loads lines)) = []
        \<and> (stderr_of (fst (main env rt loads lines)) = [Fatal e]
             \<or> stderr_of (fst (main env rt loads lines)) = [Uncaught e])
        \<and> snd (main env rt loads lines) = 1)
   \<and> count_list (stdout_of (fst (main env rt loads lines))) ready \<le> 1
   \<and> (session env rt = Inr server \<longleftrightarrow>
        (\<exists>port. py_int (JStr (getenv (MUMBLE_ICE_PORT env) ''6502'')) = Inr port
           \<and> initialize rt = None
           \<and> (getenv (MUMBLE_ICE_SECRET env) [] = []
                \<or> put_secret rt (getenv (MUMBLE_ICE_SECRET env) []) = None)
           \<and> stringToProxy rt (''Meta:tcp -h '' @ getenv (MUMBLE_HOST env) ''mumble'' @ '' -p ''
                                 @ str_int port) = None
           \<and> checkedCast rt = Inr True
           \<and> getServer rt 1 = Inr (Some server)))
   \<and> (initialize rt \<noteq> None \<or> checkedCast rt = Inr False \<or> getServer rt 1 = Inr None
        \<longrightarrow> (\<exists>e. session env rt = Inl e))"
proof -
  have ok: "\<And>srv. session env rt = Inr srv \<Longrightarrow>
       main env rt loads lines =
         (Created # Stdout ready # serve srv loads [] lines @ [Destroyed], 0)
       \<and> count_list (stdout_of (fst (main env rt loads lines))) ready = 1"
    by (simp add: main_success stdout_of_append ready_not_response)
  have bad: "\<And>e. session env rt = Inl e \<Longrightarrow>
          stdout_of (fst (main env rt loads lines)) = []
        \<and> reads_of (fst (main env rt loads lines)) = []
        \<and> calls_of (fst (main env rt loads lines)) = []
        \<and> (stderr_of (fst (main env rt loads lines)) = [Fatal e]
             \<or> stderr_of (fst (main env rt loads lines)) = [Uncaught e])
        \<and> snd (main env rt loads lines) = 1"
    using main_failure [of env rt _ loads lines] by fastforce
  have once: "count_list (stdout_of (fst (main env rt loads lines))) ready \<le> 1"
  proof (cases "session env rt")
    case (Inl e)
    with bad show ?thesis by simp
  next
    case (Inr srv)
    from ok [OF Inr] have "count_list (stdout_of (fst (main env rt loads lines))) ready = 1"
      by (rule conjunct2)
    then show ?thesis by (rule eq_imp_le)
  qed
  have named: "initialize rt \<noteq> None \<or> checkedCast rt = Inr False \<or> getServer rt 1 = Inr None
        \<longrightarrow> (\<exists>e. session env rt = Inl e)"
  proof (cases "session env rt")
    case (Inl e)
    then show ?thesis by blast
  next
    case (Inr srv)
    then show ?thesis using session_Inr_iff [of env rt srv] by auto
  qed
  show ?thesis
    using ok bad once named session_Inr_iff [of env rt server] by blast
qed

theorem ready_only_after_session_witness:
  "main example_environ example_runtime example_loads [request_A] =
     (Created # Stdout ready # serve example_server example_loads [] [request_A] @ [Destroyed], 0)
   \<and> stdout_of (fst (main example_environ no_server_runtime example_loads [request_A])) = []
   \<and> reads_of (fst (main example_environ no_server_runtime example_loads [request_A])) = []
   \<and> snd (main example_environ no_server_runtime example_loads [request_A]) = 1"
proof -
  have f: "session example_environ no_server_runtime =
     Inl (Exc RuntimeError (''getServer(1) returned null '' @ em_dash
                              @ '' is virtual server 1 running?''))"
    by (simp add: session_def example_environ_def example_runtime_def no_server_runtime_def
          getenv_def create_communicator_def connect_def int_of_text_def int_space_def
          is_digit_def digit_val_def)
  show ?thesis
    using ready_only_after_session
            [of example_environ example_runtime example_loads "[request_A]" example_server]
          ready_only_after_session
            [of example_environ no_server_runtime example_loads "[request_A]" example_server]
          example_session f
    by simp
qed

text \<open>
  Claim C9 says that the communicator is released exactly once on every exit path. The
  \<open>finally\<close> clause of \<open>main\<close> does so whenever \<open>create_communicator\<close> has returned
  (\<open>teardown_counts\<close> above). It does not when \<open>create_communicator\<close> raises after
  \<open>Ice.initialize\<close> has returned: with a secret in the environment and a communicator
  without implicit context, the communicator is created, \<open>put\<close> raises, the variable
  \<open>communicator\<close> of \<open>main\<close> is still \<open>None\<close>, and the process exits with status 1 without
  \<open>destroy()\<close>.
\<close>

theorem communicator_not_released:
  "main example_environ no_context_runtime example_loads [request_A] =
     ([Created, Stderr (Fatal (Exc AttributeError
         ([CHR 0x27] @ ''NoneType'' @ [CHR 0x27] @ '' object has no attribute ''
            @ [CHR 0x27] @ ''put'' @ [CHR 0x27])))], 1)
   \<and> count_list (fst (main example_environ no_context_runtime example_loads [request_A])) Created = 1
   \<and> count_list (fst (main example_environ no_context_runtime example_loads [request_A])) Destroyed = 0"
  by (simp add: main_def example_environ_def no_context_runtime_def example_runtime_def
        default_port create_communicator_def getenv_def Let_def)

end
